theory Spec2Isabelle
  imports Main "HOL-Library.AList" "HOL-Library.Code_Target_Nat"
begin

section \<open>JavaScript strings\<close>

text \<open>
  Strings of the program are modelled as \<^typ>\<open>string\<close>, one \<^typ>\<open>char\<close> per code
  unit in the range 0..255.  The helpers below follow the ECMAScript definitions of the
  string methods the service calls, restricted to that range.
\<close>

text \<open>White space and line terminators that \<open>String.prototype.trim\<close> strips:
  TAB, LF, VT, FF, CR, SPACE and NBSP (0xA0).\<close>

definition isWhiteSpace :: "char \<Rightarrow> bool" where
  "isWhiteSpace c = (of_char c \<in> {9, 10, 11, 12, 13, 32, 160 :: nat})"

definition trim :: "string \<Rightarrow> string" where
  "trim s = rev (dropWhile isWhiteSpace (rev (dropWhile isWhiteSpace s)))"

text \<open>\<open>toLowerCase\<close>: A..Z and the Latin-1 capitals 0xC0..0xDE (without the
  multiplication sign 0xD7) move up by 32.\<close>

definition lowerChar :: "char \<Rightarrow> char" where
  "lowerChar c =
     (let n = (of_char c :: nat) in
      if (65 \<le> n \<and> n \<le> 90) \<or> (192 \<le> n \<and> n \<le> 222 \<and> n \<noteq> 215)
      then char_of (n + 32) else c)"

definition toLowerCase :: "string \<Rightarrow> string" where
  "toLowerCase s = map lowerChar s"

fun startsWith :: "string \<Rightarrow> string \<Rightarrow> bool" where
  "startsWith s [] = True"
| "startsWith [] (p # ps) = False"
| "startsWith (c # cs) (p # ps) = (c = p \<and> startsWith cs ps)"

text \<open>\<open>s.includes(sub)\<close>: \<open>sub\<close> occurs in \<open>s\<close> as a contiguous block.\<close>

fun includesStr :: "string \<Rightarrow> string \<Rightarrow> bool" where
  "includesStr [] sub = (sub = [])"
| "includesStr (c # cs) sub = (startsWith (c # cs) sub \<or> includesStr cs sub)"

text \<open>\<open>s.replace(pat, rep)\<close> with a string pattern: only the first occurrence is
  replaced.\<close>

fun replaceFirst :: "string \<Rightarrow> string \<Rightarrow> string \<Rightarrow> string" where
  "replaceFirst [] pat rep = (if pat = [] then rep else [])"
| "replaceFirst (c # cs) pat rep =
     (if startsWith (c # cs) pat then rep @ drop (length pat) (c # cs)
      else c # replaceFirst cs pat rep)"

definition isDigit :: "char \<Rightarrow> bool" where
  "isDigit c = (48 \<le> (of_char c :: nat) \<and> (of_char c :: nat) \<le> 57)"

text \<open>\<open>s.replace(/\D/g, '')\<close>: drop every character that is not a decimal digit.\<close>

definition stripNonDigits :: "string \<Rightarrow> string" where
  "stripNonDigits s = filter isDigit s"

text \<open>Decimal rendering of a non-negative integer, as a template literal does.\<close>

fun showNat :: "nat \<Rightarrow> string" where
  "showNat n =
     (if n < 10 then [char_of (48 + n)]
      else showNat (n div 10) @ [char_of (48 + n mod 10)])"

declare showNat.simps [simp del]

text \<open>A thrown \<open>Error\<close> object; only its \<open>message\<close> is ever read.\<close>

datatype js_error = Error (err_message: string)


section \<open>Lock Reconciler (\<open>cleanupStaleLocks\<close>)\<close>

text \<open>
  The session directory is a map from entry names to the kind of entry.  \<open>fs.unlinkSync\<close>
  removes a plain file and throws on a directory and on a file that another process
  still holds; \<open>fs.existsSync\<close> reports whether the name is bound.
\<close>

datatype dir_entry = PlainFile | Directory | BusyFile

type_synonym session_dir = "string \<rightharpoonup> dir_entry"

definition existsSync :: "session_dir \<Rightarrow> string \<Rightarrow> bool" where
  "existsSync d p = (d p \<noteq> None)"

definition unlinkSync :: "session_dir \<Rightarrow> string \<Rightarrow> js_error + session_dir" where
  "unlinkSync d p =
     (case d p of
        None \<Rightarrow> Inl (Error ''ENOENT: no such file or directory'')
      | Some PlainFile \<Rightarrow> Inr (d(p := None))
      | Some Directory \<Rightarrow> Inl (Error ''EISDIR: illegal operation on a directory'')
      | Some BusyFile \<Rightarrow> Inl (Error ''EBUSY: resource busy or locked''))"

definition lockFiles :: "string list" where
  "lockFiles =
     [''lockfile'', ''DevToolsActivePort'', ''SingletonLock'', ''SingletonSocket'',
      ''SingletonCookie'']"

datatype log_line = Info string | Warn string | ErrorLine string

record locks_run =
  dir_after :: session_dir
  lock_log :: "log_line list"
  thrown :: "js_error option"

text \<open>The body of the \<open>for\<close> loop inside the \<open>try\<close>: the directory and the log written
  so far survive an exception of \<open>unlinkSync\<close>, which ends the loop.\<close>

fun removeLocks :: "string list \<Rightarrow> session_dir \<Rightarrow> log_line list \<Rightarrow> locks_run" where
  "removeLocks [] d lg = \<lparr>dir_after = d, lock_log = lg, thrown = None\<rparr>"
| "removeLocks (lockFile # rest) d lg =
     (if existsSync d lockFile then
        (case unlinkSync d lockFile of
           Inl e \<Rightarrow> \<lparr>dir_after = d, lock_log = lg, thrown = Some e\<rparr>
         | Inr d' \<Rightarrow>
             removeLocks rest d' (lg @ [Info (''Removed stale lock file: '' @ lockFile)]))
      else removeLocks rest d lg)"

text \<open>\<open>cleanupStaleLocks\<close>: the \<open>catch\<close> logs a warning and returns normally.  The result
  is \<open>Inl\<close> when the call throws and \<open>Inr\<close> with the directory left behind and the log
  lines written when it returns.\<close>

definition cleanupStaleLocks :: "session_dir \<Rightarrow> js_error + (session_dir \<times> log_line list)" where
  "cleanupStaleLocks sessionDir =
     (let r = removeLocks lockFiles sessionDir [] in
      case thrown r of
        None \<Rightarrow> Inr (dir_after r, lock_log r)
      | Some e \<Rightarrow>
          Inr (dir_after r,
               lock_log r @ [Warn (''Could not clean up some lock files: '' @ err_message e)]))"

definition isRemoval :: "log_line \<Rightarrow> bool" where
  "isRemoval l = (case l of Info m \<Rightarrow> startsWith m ''Removed stale lock file: '' | _ \<Rightarrow> False)"


section \<open>Session Lifecycle Manager (\<open>class WhatsAppService\<close>)\<close>

text \<open>
  The fields of the service object.  \<open>has_client\<close> stands for \<open>this.client !== null\<close>;
  the handlers are kept abstract (type \<open>'h\<close>).
\<close>

record 'h service =
  has_client :: bool
  isReady :: bool
  qrCode :: "string option"
  connectionStatus :: string
  messageHandlers :: "'h list"

text \<open>\<open>initializeClient\<close>: anything thrown while the client is built (the argument, when
  there is one) is replaced by a fixed error; otherwise the new client is stored.  An
  operation that can throw after changing fields returns the state together with the
  exception, if any.\<close>

definition initializeClient :: "js_error option \<Rightarrow> 'h service \<Rightarrow> 'h service \<times> js_error option" where
  "initializeClient buildFault s =
     (case buildFault of
        None \<Rightarrow> (s\<lparr>has_client := True\<rparr>, None)
      | Some e \<Rightarrow> (s, Some (Error ''Client initialization failed'')))"

definition constructor :: "js_error option \<Rightarrow> 'h service \<times> js_error option" where
  "constructor buildFault =
     initializeClient buildFault
       \<lparr>has_client = False, isReady = False, qrCode = None,
        connectionStatus = ''disconnected'', messageHandlers = []\<rparr>"

text \<open>
  The events of the client that \<open>setupEventHandlers\<close> subscribes to.  The handler of
  \<open>qr\<close> is asynchronous and runs in two steps: \<open>QrEvent\<close> is its first part, which sets
  the status; it then awaits \<open>QRCode.toDataURL\<close>, and \<open>QrResume\<close> is what runs when that
  settles, with the data URL or the error thrown.  Other events may be handled between
  the two steps.
\<close>

datatype client_event =
    QrEvent
  | QrResume "js_error + string"
  | ReadyEvent
  | AuthenticatedEvent
  | LoadingScreenEvent
  | AuthFailureEvent
  | DisconnectedEvent
  | ErrorEvent

fun handleEvent :: "client_event \<Rightarrow> 'h service \<Rightarrow> 'h service" where
  "handleEvent QrEvent s = s\<lparr>connectionStatus := ''connecting''\<rparr>"
| "handleEvent (QrResume rendered) s =
     (case rendered of
        Inr dataUrl \<Rightarrow> s\<lparr>qrCode := Some dataUrl\<rparr>
      | Inl e \<Rightarrow> s)"
| "handleEvent ReadyEvent s =
     s\<lparr>isReady := True, connectionStatus := ''authenticated'', qrCode := None\<rparr>"
| "handleEvent AuthenticatedEvent s = s\<lparr>connectionStatus := ''connected''\<rparr>"
| "handleEvent LoadingScreenEvent s = s"
| "handleEvent AuthFailureEvent s = s\<lparr>connectionStatus := ''disconnected'', isReady := False\<rparr>"
| "handleEvent DisconnectedEvent s =
     s\<lparr>connectionStatus := ''disconnected'', isReady := False, qrCode := None\<rparr>"
| "handleEvent ErrorEvent s = s"

text \<open>\<open>start\<close>: an exception of \<open>destroy\<close> is swallowed, so \<open>destroyFault\<close> changes
  nothing; \<open>connectFault\<close> is what \<open>client.initialize()\<close> throws, if anything.\<close>

definition start ::
  "js_error option \<Rightarrow> js_error option \<Rightarrow> js_error option \<Rightarrow> 'h service \<Rightarrow> 'h service \<times> js_error option" where
  "start destroyFault buildFault connectFault s =
     (let s1 = (if has_client s
                then s\<lparr>isReady := False, connectionStatus := ''disconnected'',
                       qrCode := None, has_client := False\<rparr>
                else s)
      in case initializeClient buildFault s1 of
           (s2, Some e) \<Rightarrow> (s2, Some e)
         | (s2, None) \<Rightarrow> (s2, connectFault))"

definition stop :: "js_error option \<Rightarrow> 'h service \<Rightarrow> 'h service \<times> js_error option" where
  "stop destroyFault s =
     (if has_client s then
        (case destroyFault of
           Some e \<Rightarrow> (s, Some e)
         | None \<Rightarrow> (s\<lparr>isReady := False, connectionStatus := ''disconnected'', qrCode := None\<rparr>, None))
      else (s, None))"

text \<open>\<open>addMessageHandler\<close>: the argument is \<open>Some h\<close> for a function and \<open>None\<close> for any
  other value.\<close>

definition addMessageHandler :: "'h option \<Rightarrow> 'h service \<Rightarrow> 'h service \<times> js_error option" where
  "addMessageHandler handler s =
     (case handler of
        Some h \<Rightarrow> (s\<lparr>messageHandlers := messageHandlers s @ [h]\<rparr>, None)
      | None \<Rightarrow> (s, Some (Error ''Handler must be a function'')))"

record status_report =
  status_isReady :: bool
  status_connectionStatus :: string
  hasQrCode :: bool
  handlersCount :: nat
  status_timestamp :: string

text \<open>\<open>getStatus\<close>; \<open>!!this.qrCode\<close> is true for a non-empty string.\<close>

definition getStatus :: "string \<Rightarrow> 'h service \<Rightarrow> status_report" where
  "getStatus isoNow s =
     \<lparr>status_isReady = isReady s,
      status_connectionStatus = connectionStatus s,
      hasQrCode = (case qrCode s of None \<Rightarrow> False | Some q \<Rightarrow> q \<noteq> []),
      handlersCount = length (messageHandlers s),
      status_timestamp = isoNow\<rparr>"

definition getQrCode :: "'h service \<Rightarrow> string option" where
  "getQrCode s = qrCode s"

text \<open>The operations that change the service object over its lifetime, and a run of
  them, one after the other.\<close>

datatype 'h lifecycle_op =
    Start "js_error option" "js_error option" "js_error option"
  | Stop "js_error option"
  | ClientEvent client_event
  | AddMessageHandler "'h option"

fun applyOp :: "'h lifecycle_op \<Rightarrow> 'h service \<Rightarrow> 'h service" where
  "applyOp (Start destroyFault buildFault connectFault) s =
     fst (start destroyFault buildFault connectFault s)"
| "applyOp (Stop destroyFault) s = fst (stop destroyFault s)"
| "applyOp (ClientEvent e) s = handleEvent e s"
| "applyOp (AddMessageHandler handler) s = fst (addMessageHandler handler s)"

definition run :: "'h lifecycle_op list \<Rightarrow> 'h service \<Rightarrow> 'h service" where
  "run ops s = foldl (\<lambda>st op. applyOp op st) s ops"

text \<open>The service as a successful \<open>new WhatsAppService()\<close> leaves it.\<close>

definition newService :: "'h service" where
  "newService = fst (constructor None)"





section \<open>Validation utilities (\<open>utils/validator\<close>)\<close>

text \<open>An argument that a caller may leave out is an option: \<open>None\<close> stands for
  \<open>undefined\<close> or \<open>null\<close>.\<close>

definition validatePhoneNumber :: "string option \<Rightarrow> bool" where
  "validatePhoneNumber phoneNumber =
     (case phoneNumber of
        None \<Rightarrow> False
      | Some p \<Rightarrow>
          if p = [] then False
          else
            (let cleaned = stripNonDigits p in
             if length cleaned < 9 \<or> length cleaned > 12 then False
             else if startsWith cleaned ''0'' then length cleaned = 10 \<and> startsWith cleaned ''05''
             else if startsWith cleaned ''5'' then length cleaned = 9
             else if startsWith cleaned ''972'' then length cleaned = 12
             else True))"

definition formatPhoneNumber :: "string option \<Rightarrow> string \<Rightarrow> js_error + string" where
  "formatPhoneNumber phoneNumber countryCode =
     (case phoneNumber of
        None \<Rightarrow> Inl (Error ''Phone number is required'')
      | Some p \<Rightarrow>
          if p = [] then Inl (Error ''Phone number is required'')
          else
            (let cleaned = stripNonDigits p in
             if countryCode = ''972'' then
               (let cleaned1 = (if startsWith cleaned ''0'' then drop 1 cleaned else cleaned);
                    cleaned2 = (if startsWith cleaned1 ''972'' then drop 3 cleaned1 else cleaned1)
                in if length cleaned2 = 9 \<and> startsWith cleaned2 ''5''
                   then Inr (''972'' @ cleaned2 @ ''@c.us'')
                   else Inl (Error ''Invalid Israeli mobile number format''))
             else if startsWith cleaned countryCode then Inr (cleaned @ ''@c.us'')
             else Inr (countryCode @ cleaned @ ''@c.us'')))"


section \<open>Sending (\<open>sendMessage\<close>, \<open>sendToChat\<close>)\<close>

text \<open>
  The Messaging Client is a black box: its answers to \<open>getNumberId\<close> (the serialized id,
  or \<open>null\<close>) and to \<open>sendMessage\<close> (the sent message's id and timestamp) are given by two
  functions, either of which may throw.  Every call made to the client is recorded.

  What the client throws (what its promise rejects with) is any value: an \<open>Error\<close>
  object, \<open>null\<close>, \<open>undefined\<close>, or another value without a \<open>message\<close> property (a
  string, a number, a plain object).
\<close>

datatype thrown = ErrorThrown js_error | NullThrown | UndefinedThrown | OtherThrown

record sent_message =
  sent_id :: string
  sent_timestamp :: nat

record client =
  getNumberId :: "string \<Rightarrow> thrown + string option"
  clientSendMessage :: "string \<Rightarrow> string \<Rightarrow> thrown + sent_message"

datatype client_call = GetNumberIdCall string | SendMessageCall string string

text \<open>The object a send operation resolves to; a key the code does not set, or sets to
  \<open>undefined\<close>, is \<open>None\<close>.\<close>

record send_result =
  success :: bool
  messageId :: "string option"
  timestamp :: "nat option"
  sent_to :: "string option"
  originalNumber :: "string option"
  message :: "string option"
  countryCode :: "string option"
  result_note :: "string option"
  error :: "string option"

definition emptyResult :: send_result where
  "emptyResult =
     \<lparr>success = False, messageId = None, timestamp = None, sent_to = None,
      originalNumber = None, message = None, countryCode = None, result_note = None,
      error = None\<rparr>"

definition isMarkedUnread :: "js_error \<Rightarrow> bool" where
  "isMarkedUnread sendError =
     (err_message sendError \<noteq> [] \<and> includesStr (err_message sendError) ''markedUnread'')"

definition notReady :: js_error where
  "notReady = Error ''WhatsApp client is not ready. Please authenticate first.''"

text \<open>The \<open>TypeError\<close> of reading a property of \<open>null\<close> or \<open>undefined\<close>.\<close>

definition cannotRead :: "string \<Rightarrow> string \<Rightarrow> js_error" where
  "cannotRead what property =
     Error (''Cannot read properties of '' @ what @ '' (reading '' @ [CHR 0x27] @ property
            @ [CHR 0x27] @ '')'')"

definition noClient :: "string \<Rightarrow> js_error" where
  "noClient method = cannotRead ''null'' method"

text \<open>\<open>x.message\<close> for a caught value \<open>x\<close>: the message of an \<open>Error\<close>, a \<open>TypeError\<close> for
  \<open>null\<close> and \<open>undefined\<close>, and \<open>undefined\<close> for any other value.\<close>

definition messageOf :: "thrown \<Rightarrow> js_error + string option" where
  "messageOf x =
     (case x of
        ErrorThrown e \<Rightarrow> Inr (Some (err_message e))
      | NullThrown \<Rightarrow> Inl (cannotRead ''null'' ''message'')
      | UndefinedThrown \<Rightarrow> Inl (cannotRead ''undefined'' ''message'')
      | OtherThrown \<Rightarrow> Inr None)"

text \<open>
  The inner \<open>catch (sendError)\<close> around the send primitive.  It reads
  \<open>sendError.message\<close>: on \<open>null\<close> or \<open>undefined\<close> that read throws a \<open>TypeError\<close>, which
  leaves the inner \<open>catch\<close> for the outer one; a message that contains \<open>markedUnread\<close>
  gives the result \<open>pending\<close>; anything else is thrown again.
\<close>

definition sendErrorCaught :: "thrown \<Rightarrow> send_result \<Rightarrow> thrown + send_result" where
  "sendErrorCaught sendError pending =
     (case messageOf sendError of
        Inl typeError \<Rightarrow> Inl (ErrorThrown typeError)
      | Inr None \<Rightarrow> Inl sendError
      | Inr (Some text) \<Rightarrow>
          if text \<noteq> [] \<and> includesStr text ''markedUnread'' then Inr pending else Inl sendError)"

text \<open>
  The outer \<open>catch (error)\<close>: it returns the record \<open>failure\<close> with \<open>error.message\<close> in
  its \<open>error\<close> key.  Reading \<open>error.message\<close> of \<open>null\<close> or \<open>undefined\<close> throws inside the
  \<open>catch\<close>, out of the operation: the result is then \<open>Inl\<close>.
\<close>

definition failureCaught :: "thrown \<Rightarrow> send_result \<Rightarrow> js_error + send_result" where
  "failureCaught err failure =
     (case messageOf err of
        Inl typeError \<Rightarrow> Inl typeError
      | Inr text \<Rightarrow> Inr (failure\<lparr>success := False, error := text\<rparr>))"

text \<open>A value inside a template literal.\<close>

definition templateText :: "string option \<Rightarrow> string" where
  "templateText v = (case v of None \<Rightarrow> ''undefined'' | Some t \<Rightarrow> t)"

text \<open>The \<open>try\<close> block of \<open>sendMessage\<close>: \<open>Inl\<close> is a value thrown, on its way to the
  \<open>catch\<close>, \<open>Inr\<close> a returned result; \<open>now\<close> is \<open>Date.now()\<close>.\<close>

definition sendMessage_try ::
  "client \<Rightarrow> nat \<Rightarrow> 'h service \<Rightarrow> string option \<Rightarrow> string option \<Rightarrow> string
     \<Rightarrow> (thrown + send_result) \<times> client_call list" where
  "sendMessage_try c now s phoneNumber msg cc =
     (if \<not> isReady s then (Inl (ErrorThrown notReady), [])
      else if \<not> validatePhoneNumber phoneNumber then
        (Inl (ErrorThrown (Error ''Invalid phone number format'')), [])
      else
        (case msg of
           None \<Rightarrow> (Inl (ErrorThrown (Error ''Message cannot be empty'')), [])
         | Some m \<Rightarrow>
             if m = [] \<or> length (trim m) = 0 then
               (Inl (ErrorThrown (Error ''Message cannot be empty'')), [])
             else
               (case formatPhoneNumber phoneNumber cc of
                  Inl e \<Rightarrow> (Inl (ErrorThrown e), [])
                | Inr formattedNumber \<Rightarrow>
                    if \<not> has_client s then (Inl (ErrorThrown (noClient ''getNumberId'')), [])
                    else
                      (case getNumberId c formattedNumber of
                         Inl t \<Rightarrow> (Inl t, [GetNumberIdCall formattedNumber])
                       | Inr None \<Rightarrow>
                           (Inl (ErrorThrown (Error (''Phone number '' @ templateText phoneNumber
                                          @ '' is not registered on WhatsApp''))),
                            [GetNumberIdCall formattedNumber])
                       | Inr (Some numberId) \<Rightarrow>
                           (let calls = [GetNumberIdCall formattedNumber, SendMessageCall numberId m]
                            in case clientSendMessage c numberId m of
                                 Inl sendError \<Rightarrow>
                                   (sendErrorCaught sendError
                                      (emptyResult
                                        \<lparr>success := True,
                                         messageId := Some (''pending-'' @ showNat now),
                                         timestamp := Some (now div 1000),
                                         sent_to := Some formattedNumber,
                                         originalNumber := phoneNumber,
                                         message := Some m,
                                         countryCode := Some cc,
                                         result_note := Some ''Message likely delivered (markedUnread bug workaround)''\<rparr>),
                                    calls)
                               | Inr result \<Rightarrow>
                                   (Inr (emptyResult
                                      \<lparr>success := True,
                                       messageId := Some (sent_id result),
                                       timestamp := Some (sent_timestamp result),
                                       sent_to := Some formattedNumber,
                                       originalNumber := phoneNumber,
                                       message := Some m,
                                       countryCode := Some cc\<rparr>),
                                    calls))))))"

text \<open>\<open>sendMessage\<close>: the \<open>try\<close> block under the outer \<open>catch\<close>.  The first component is
  \<open>Inl\<close> if the call as a whole throws (its promise rejects).\<close>

definition sendMessage ::
  "client \<Rightarrow> nat \<Rightarrow> 'h service \<Rightarrow> string option \<Rightarrow> string option \<Rightarrow> string
     \<Rightarrow> (js_error + send_result) \<times> client_call list" where
  "sendMessage c now s phoneNumber msg cc =
     (case sendMessage_try c now s phoneNumber msg cc of
        (Inl err, calls) \<Rightarrow>
          (failureCaught err (emptyResult\<lparr>sent_to := phoneNumber, message := msg\<rparr>), calls)
      | (Inr r, calls) \<Rightarrow> (Inr r, calls))"

definition sendToChat_try ::
  "client \<Rightarrow> nat \<Rightarrow> 'h service \<Rightarrow> string \<Rightarrow> string option
     \<Rightarrow> (thrown + send_result) \<times> client_call list" where
  "sendToChat_try c now s chatId msg =
     (if \<not> isReady s then (Inl (ErrorThrown notReady), [])
      else
        (case msg of
           None \<Rightarrow> (Inl (ErrorThrown (Error ''Message cannot be empty'')), [])
         | Some m \<Rightarrow>
             if m = [] \<or> length (trim m) = 0 then
               (Inl (ErrorThrown (Error ''Message cannot be empty'')), [])
             else if \<not> has_client s then (Inl (ErrorThrown (noClient ''sendMessage'')), [])
             else
               (let calls = [SendMessageCall chatId m]
                in case clientSendMessage c chatId m of
                     Inl sendError \<Rightarrow>
                       (sendErrorCaught sendError
                          (emptyResult
                            \<lparr>success := True,
                             messageId := Some (''pending-'' @ showNat now),
                             timestamp := Some (now div 1000),
                             sent_to := Some chatId,
                             message := Some m,
                             result_note := Some ''Message likely delivered (markedUnread bug workaround)''\<rparr>),
                        calls)
                   | Inr result \<Rightarrow>
                       (Inr (emptyResult
                          \<lparr>success := True,
                           messageId := Some (sent_id result),
                           timestamp := Some (sent_timestamp result),
                           sent_to := Some chatId,
                           message := Some m\<rparr>),
                        calls))))"

definition sendToChat ::
  "client \<Rightarrow> nat \<Rightarrow> 'h service \<Rightarrow> string \<Rightarrow> string option
     \<Rightarrow> (js_error + send_result) \<times> client_call list" where
  "sendToChat c now s chatId msg =
     (case sendToChat_try c now s chatId msg of
        (Inl err, calls) \<Rightarrow>
          (failureCaught err (emptyResult\<lparr>sent_to := Some chatId, message := msg\<rparr>), calls)
      | (Inr r, calls) \<Rightarrow> (Inr r, calls))"

text \<open>The result of the \<open>markedUnread\<close> workaround: a success whose id starts with
  \<open>pending-\<close> and that carries a note and no error.\<close>

definition pendingSuccess :: "js_error + send_result \<Rightarrow> bool" where
  "pendingSuccess outcome =
     (case outcome of
        Inl e \<Rightarrow> False
      | Inr r \<Rightarrow>
          success r \<and> result_note r \<noteq> None \<and> error r = None \<and>
          (case messageId r of None \<Rightarrow> False | Some i \<Rightarrow> startsWith i ''pending-''))"

text \<open>A returned failure record: \<open>success\<close> is false and the \<open>error\<close> key is set.\<close>

definition failureResult :: "js_error + send_result \<Rightarrow> bool" where
  "failureResult outcome =
     (case outcome of Inl e \<Rightarrow> False | Inr r \<Rightarrow> \<not> success r \<and> error r \<noteq> None)"





text \<open>Concrete inputs for the examples: a client whose send primitive always fails with
  the \<open>markedUnread\<close> error of the underlying library, a client whose send primitive
  fails with another error, a client whose promises reject with \<open>null\<close>, and a service
  that has received \<open>ready\<close>.\<close>

definition quirkyClient :: client where
  "quirkyClient =
     \<lparr>getNumberId = (\<lambda>n. Inr (Some n)),
      clientSendMessage =
        (\<lambda>a m. Inl (ErrorThrown (Error ''Evaluation failed: TypeError: Cannot read properties of undefined (reading markedUnread)'')))\<rparr>"


definition nullClient :: client where
  "nullClient =
     \<lparr>getNumberId = (\<lambda>n. Inl NullThrown),
      clientSendMessage = (\<lambda>a m. Inl NullThrown)\<rparr>"

definition readyService :: "nat service" where
  "readyService = run [ClientEvent ReadyEvent] newService"


section \<open>Messages, the Persistence Store and the webhook\<close>

text \<open>The fields of the client's message object that the service reads.\<close>

record raw_message =
  raw_id :: string
  raw_serialized :: string
  raw_from :: string
  raw_to :: string
  raw_body :: string
  raw_timestamp :: nat
  raw_type :: string
  raw_isGroupMsg :: bool
  raw_author :: "string option"
  raw_notifyName :: "string option"
  raw_fromMe :: bool

text \<open>\<open>messageData\<close>, the record handed to the handlers.\<close>

record messageData =
  md_id :: string
  md_from :: string
  md_to :: string
  md_body :: string
  md_timestamp :: nat
  md_type :: string
  md_isGroupMsg :: bool
  md_author :: "string option"
  md_notifyName :: "string option"
  md_fromMe :: bool

definition toMessageData :: "raw_message \<Rightarrow> messageData" where
  "toMessageData m =
     \<lparr>md_id = raw_id m, md_from = raw_from m, md_to = raw_to m, md_body = raw_body m,
      md_timestamp = raw_timestamp m, md_type = raw_type m, md_isGroupMsg = raw_isGroupMsg m,
      md_author = raw_author m, md_notifyName = raw_notifyName m, md_fromMe = raw_fromMe m\<rparr>"

text \<open>A row of table \<open>messages\<close>, whose primary key is \<open>id\<close>.\<close>

record db_row =
  row_id :: string
  fromNumber :: string
  toNumber :: string
  row_body :: string
  row_timestamp :: nat
  row_type :: string
  row_isGroupMsg :: nat
  processed :: nat

definition toRow :: "messageData \<Rightarrow> db_row" where
  "toRow md =
     \<lparr>row_id = md_id md, fromNumber = md_from md, toNumber = md_to md, row_body = md_body md,
      row_timestamp = md_timestamp md, row_type = md_type md,
      row_isGroupMsg = (if md_isGroupMsg md then 1 else 0), processed = 0\<rparr>"

text \<open>\<open>INSERT OR REPLACE\<close>: the rows in conflict on the primary key are deleted, then the
  new row is inserted.\<close>

definition insertOrReplace :: "db_row \<Rightarrow> db_row list \<Rightarrow> db_row list" where
  "insertOrReplace r tbl = filter (\<lambda>old. row_id old \<noteq> row_id r) tbl @ [r]"

record webhook_payload =
  wp_id :: string
  wp_from :: string
  wp_to :: string
  wp_body :: string
  wp_timestamp :: nat
  wp_fromMe :: bool
  wp_isGroupMsg :: bool
  wp_author :: "string option"
  wp_notifyName :: "string option"
  wp_type :: string

record webhook_post =
  post_url :: string
  post_event :: string
  post_payload :: webhook_payload
  post_timeout :: nat

definition webhookPayload :: "raw_message \<Rightarrow> webhook_payload" where
  "webhookPayload m =
     \<lparr>wp_id = raw_serialized m, wp_from = raw_from m, wp_to = raw_to m, wp_body = raw_body m,
      wp_timestamp = raw_timestamp m, wp_fromMe = raw_fromMe m,
      wp_isGroupMsg = includesStr (raw_from m) ''@g.us'',
      wp_author = raw_author m, wp_notifyName = raw_notifyName m, wp_type = raw_type m\<rparr>"

text \<open>What a delivery acts on: the table, the POST requests issued so far, and the state
  \<open>'w\<close> that the handlers work on.\<close>

record 'w world =
  db_messages :: "db_row list"
  posts :: "webhook_post list"
  handler_world :: 'w

text \<open>The handler chain: each handler runs in turn on the state the previous one left;
  what a handler throws is caught and logged.\<close>

fun runHandlers ::
  "('h \<Rightarrow> messageData \<Rightarrow> raw_message \<Rightarrow> 'w \<Rightarrow> 'w \<times> js_error option)
     \<Rightarrow> 'h list \<Rightarrow> messageData \<Rightarrow> raw_message \<Rightarrow> 'w \<Rightarrow> 'w" where
  "runHandlers exec [] md m w = w"
| "runHandlers exec (h # hs) md m w = runHandlers exec hs md m (fst (exec h md m w))"

text \<open>
  \<open>handleIncomingMessage\<close>.  \<open>exec\<close> runs one handler; \<open>webhookUrl\<close> is
  \<open>process.env.WEBHOOK_URL\<close>; \<open>dbFault\<close> is what \<open>insert.run\<close> throws, if anything (it is
  caught and logged, and the table stays as it was).  A failure of the POST is caught and
  logged as well, so the request issued is all that is recorded of it.
\<close>

definition handleIncomingMessage ::
  "('h \<Rightarrow> messageData \<Rightarrow> raw_message \<Rightarrow> 'w \<Rightarrow> 'w \<times> js_error option)
     \<Rightarrow> string option \<Rightarrow> js_error option \<Rightarrow> 'h service \<Rightarrow> raw_message \<Rightarrow> 'w world \<Rightarrow> 'w world" where
  "handleIncomingMessage exec webhookUrl dbFault s m w =
     (let messageData = toMessageData m;
          db1 = (case dbFault of
                   None \<Rightarrow> insertOrReplace (toRow messageData) (db_messages w)
                 | Some e \<Rightarrow> db_messages w);
          posts1 = (case webhookUrl of
                      None \<Rightarrow> posts w
                    | Some url \<Rightarrow>
                        if url = [] then posts w
                        else posts w @
                          [\<lparr>post_url = url, post_event = ''message'',
                            post_payload = webhookPayload m, post_timeout = 5000\<rparr>])
      in \<lparr>db_messages = db1, posts = posts1,
          handler_world = runHandlers exec (messageHandlers s) messageData m (handler_world w)\<rparr>)"


section \<open>Auto-Response Engine (\<open>class MessageHandler\<close>)\<close>

text \<open>
  A \<open>RegExp\<close> object: its pattern, as the search it performs (from a start index of the
  text to the end index of the match found, if any); whether it has the \<open>g\<close> or the \<open>y\<close>
  flag; and its \<open>lastIndex\<close>, which such an expression keeps from one \<open>test\<close> to the next.
\<close>

record regexp =
  re_search :: "nat \<Rightarrow> string \<Rightarrow> nat option"
  re_global :: bool
  lastIndex :: nat

text \<open>
  \<open>RegExp.prototype.test\<close>: the answer and the object as the call leaves it.  Without
  \<open>g\<close> and \<open>y\<close> the search starts at 0 and \<open>lastIndex\<close> is left alone.  With one of them
  the search starts at \<open>lastIndex\<close>; a match moves \<open>lastIndex\<close> to its end, a failure
  (or a \<open>lastIndex\<close> beyond the text) resets it to 0.
\<close>

definition regexpTest :: "regexp \<Rightarrow> string \<Rightarrow> bool \<times> regexp" where
  "regexpTest rx text =
     (if \<not> re_global rx then (re_search rx 0 text \<noteq> None, rx)
      else if lastIndex rx > length text then (False, rx\<lparr>lastIndex := 0\<rparr>)
      else
        (case re_search rx (lastIndex rx) text of
           None \<Rightarrow> (False, rx\<lparr>lastIndex := 0\<rparr>)
         | Some e \<Rightarrow> (True, rx\<lparr>lastIndex := e\<rparr>)))"

text \<open>
  A trigger is a string, a \<open>RegExp\<close>, a function of the text (which may throw) or any
  other value.  A response is a string, a function of the message (which may throw) or
  any other value.  Functions are taken to depend on their arguments only.
\<close>

datatype trigger =
    StringTrigger string
  | RegExpTrigger regexp
  | FunctionTrigger "string \<Rightarrow> js_error + bool"
  | OtherTrigger

datatype response =
    StringResponse string
  | FunctionResponse "messageData \<Rightarrow> raw_message \<Rightarrow> js_error + string"
  | OtherResponse

text \<open>A value of a key that the engine only tests for truth.\<close>

datatype js_value = JUndefined | JNull | JBool bool | JNumber int | JString string

definition truthy :: "js_value \<Rightarrow> bool" where
  "truthy v =
     (case v of
        JUndefined \<Rightarrow> False
      | JNull \<Rightarrow> False
      | JBool b \<Rightarrow> b
      | JNumber n \<Rightarrow> n \<noteq> 0
      | JString t \<Rightarrow> t \<noteq> [])"

record responder =
  responder_id :: string
  responder_trigger :: trigger
  responder_response :: response
  enabled :: js_value
  createdAt :: string
  description :: string

text \<open>
  The \<open>options\<close> object, by the keys that meet a key of the responder: each is \<open>None\<close>
  when the object has no such key.  \<open>id\<close>, \<open>createdAt\<close> and \<open>description\<close> are taken to be
  strings when present.  Any other key of \<open>options\<close> is copied into the responder and
  never read.
\<close>

record responder_options =
  opt_id :: "string option"
  opt_trigger :: "trigger option"
  opt_response :: "response option"
  opt_enabled :: "js_value option"
  opt_createdAt :: "string option"
  opt_description :: "string option"

definition noOptions :: responder_options where
  "noOptions =
     \<lparr>opt_id = None, opt_trigger = None, opt_response = None, opt_enabled = None,
      opt_createdAt = None, opt_description = None\<rparr>"

record log_entry =
  logged :: messageData
  processedAt :: string

text \<open>The \<open>Map\<close> of responders is an association list in insertion order: \<open>set\<close> on a
  key already there replaces the value in place, \<open>set\<close> on a new key appends.\<close>

record message_handler =
  autoResponders :: "(string \<times> responder) list"
  messageLog :: "log_entry list"
  maxLogSize :: nat

definition newMessageHandler :: message_handler where
  "newMessageHandler = \<lparr>autoResponders = [], messageLog = [], maxLogSize = 1000\<rparr>"

text \<open>\<open>xs.slice(-n)\<close>: the last \<open>n\<close> elements; \<open>-0\<close> is \<open>0\<close>, so \<open>slice(-0)\<close> is the whole
  array.\<close>

definition sliceLast :: "nat \<Rightarrow> 'a list \<Rightarrow> 'a list" where
  "sliceLast n xs = (if n = 0 then xs else drop (length xs - n) xs)"

definition addToMessageLog :: "string \<Rightarrow> messageData \<Rightarrow> message_handler \<Rightarrow> message_handler" where
  "addToMessageLog isoNow md mh =
     (let lg = messageLog mh @ [\<lparr>logged = md, processedAt = isoNow\<rparr>]
      in mh\<lparr>messageLog := (if length lg > maxLogSize mh then sliceLast (maxLogSize mh) lg else lg)\<rparr>)"

definition getRecentMessages :: "nat \<Rightarrow> message_handler \<Rightarrow> log_entry list" where
  "getRecentMessages limit mh = sliceLast limit (messageLog mh)"

definition isOwnMessage :: "messageData \<Rightarrow> bool" where
  "isOwnMessage md = md_fromMe md"

definition shouldProcessGroupMessages :: bool where
  "shouldProcessGroupMessages = False"

text \<open>\<open>matchesTrigger\<close>: the answer, and the trigger as the call leaves it (a \<open>RegExp\<close>
  may have moved its \<open>lastIndex\<close>).  What a function trigger throws is caught.\<close>

definition matchesTrigger :: "string \<Rightarrow> trigger \<Rightarrow> bool \<times> trigger" where
  "matchesTrigger messageText trg =
     (case trg of
        StringTrigger t \<Rightarrow> (includesStr messageText (toLowerCase t), trg)
      | RegExpTrigger rx \<Rightarrow>
          (case regexpTest rx messageText of (hit, rx') \<Rightarrow> (hit, RegExpTrigger rx'))
      | FunctionTrigger f \<Rightarrow> ((case f messageText of Inl e \<Rightarrow> False | Inr b \<Rightarrow> b), trg)
      | OtherTrigger \<Rightarrow> (False, trg))"

text \<open>A call of \<open>whatsappService.sendMessage(senderNumber, response, '972')\<close>.\<close>

record reply =
  reply_to :: string
  reply_text :: string
  reply_countryCode :: string

definition resolveResponse :: "responder \<Rightarrow> messageData \<Rightarrow> raw_message \<Rightarrow> js_error + string" where
  "resolveResponse r md m =
     (case responder_response r of
        StringResponse s \<Rightarrow> Inr s
      | FunctionResponse f \<Rightarrow> f md m
      | OtherResponse \<Rightarrow> Inr [])"

definition senderNumber :: "messageData \<Rightarrow> string" where
  "senderNumber md = replaceFirst (replaceFirst (md_from md) ''@c.us'' []) ''972'' []"

text \<open>\<open>executeAutoResponder\<close>: the replies it sends (none or one).  The result of the
  send is only logged; an exception of the producer is caught.\<close>

definition executeAutoResponder :: "responder \<Rightarrow> messageData \<Rightarrow> raw_message \<Rightarrow> reply list" where
  "executeAutoResponder r md m =
     (case resolveResponse r md m of
        Inl e \<Rightarrow> []
      | Inr resp \<Rightarrow>
          if resp \<noteq> [] then
            [\<lparr>reply_to = senderNumber md, reply_text = resp, reply_countryCode = ''972''\<rparr>]
          else [])"

text \<open>What a pass over the responders did: the ids of the rules whose trigger was
  evaluated, of the rules executed, and the replies sent.\<close>

record scan_result =
  evaluated :: "string list"
  executed :: "string list"
  replies :: "reply list"

text \<open>A rule after its trigger was evaluated on the text.\<close>

definition afterTest :: "string \<Rightarrow> responder \<Rightarrow> responder" where
  "afterTest messageText r =
     r\<lparr>responder_trigger := snd (matchesTrigger messageText (responder_trigger r))\<rparr>"

text \<open>The \<open>for\<close> loop of \<open>checkAutoResponders\<close>, with its \<open>break\<close>: what the pass did, and
  the registry as it leaves it.  \<open>&&\<close> does not evaluate the trigger of a disabled
  rule.\<close>

fun scanResponders ::
  "string \<Rightarrow> messageData \<Rightarrow> raw_message \<Rightarrow> (string \<times> responder) list
     \<Rightarrow> scan_result \<times> (string \<times> responder) list" where
  "scanResponders messageText md m [] = (\<lparr>evaluated = [], executed = [], replies = []\<rparr>, [])"
| "scanResponders messageText md m ((k, r) # rest) =
     (if truthy (enabled r) then
        (if fst (matchesTrigger messageText (responder_trigger r)) then
           (\<lparr>evaluated = [k], executed = [k],
             replies = executeAutoResponder (afterTest messageText r) md m\<rparr>,
            (k, afterTest messageText r) # rest)
         else
           (case scanResponders messageText md m rest of
              (res, rest') \<Rightarrow>
                (res\<lparr>evaluated := k # evaluated res\<rparr>, (k, afterTest messageText r) # rest')))
      else
        (case scanResponders messageText md m rest of
           (res, rest') \<Rightarrow> (res, (k, r) # rest')))"

definition checkAutoResponders ::
  "message_handler \<Rightarrow> messageData \<Rightarrow> raw_message \<Rightarrow> scan_result \<times> message_handler" where
  "checkAutoResponders mh md m =
     (if md_type md \<noteq> ''chat'' then (\<lparr>evaluated = [], executed = [], replies = []\<rparr>, mh)
      else
        (case scanResponders (trim (toLowerCase (md_body md))) md m (autoResponders mh) of
           (res, registry) \<Rightarrow> (res, mh\<lparr>autoResponders := registry\<rparr>)))"

text \<open>\<open>processMessage\<close>, the handler that the constructor registers with the service:
  the new state of the message handler and the replies sent.\<close>

definition processMessage ::
  "string \<Rightarrow> message_handler \<Rightarrow> messageData \<Rightarrow> raw_message \<Rightarrow> message_handler \<times> reply list" where
  "processMessage isoNow mh md m =
     (let mh1 = addToMessageLog isoNow md mh in
      if md_isGroupMsg md \<and> \<not> shouldProcessGroupMessages then (mh1, [])
      else if isOwnMessage md then (mh1, [])
      else
        (case checkAutoResponders mh1 md m of
           (res, mh2) \<Rightarrow> (mh2, replies res)))"

text \<open>
  \<open>addAutoResponder\<close>; \<open>now\<close> is \<open>Date.now()\<close>, \<open>isoNow\<close> the ISO date.  The \<open>catch\<close>
  rethrows, so the result is \<open>Inl\<close> when something in the \<open>try\<close> block throws, and
  otherwise \<open>Inr\<close> with the id returned and the new state.  The responder is built from
  the arguments and the defaults, and the spread of \<open>options\<close> comes last: every key that
  \<open>options\<close> has replaces the value built, the trigger and the response included.
\<close>

definition addAutoResponder ::
  "trigger \<Rightarrow> response \<Rightarrow> responder_options \<Rightarrow> nat \<Rightarrow> string \<Rightarrow> message_handler
     \<Rightarrow> js_error + (string \<times> message_handler)" where
  "addAutoResponder trg resp options now isoNow mh =
     (let responderId =
            (case opt_id options of
               None \<Rightarrow> ''responder_'' @ showNat now
             | Some i \<Rightarrow> if i = [] then ''responder_'' @ showNat now else i);
          r = \<lparr>responder_id = (case opt_id options of None \<Rightarrow> responderId | Some i \<Rightarrow> i),
               responder_trigger = (case opt_trigger options of None \<Rightarrow> trg | Some t \<Rightarrow> t),
               responder_response = (case opt_response options of None \<Rightarrow> resp | Some x \<Rightarrow> x),
               enabled = (case opt_enabled options of None \<Rightarrow> JBool True | Some v \<Rightarrow> v),
               createdAt = (case opt_createdAt options of None \<Rightarrow> isoNow | Some d \<Rightarrow> d),
               description = (case opt_description options of None \<Rightarrow> [] | Some d \<Rightarrow> d)\<rparr>
      in Inr (responderId, mh\<lparr>autoResponders := AList.update responderId r (autoResponders mh)\<rparr>))"

definition removeAutoResponder :: "string \<Rightarrow> message_handler \<Rightarrow> bool \<times> message_handler" where
  "removeAutoResponder responderId mh =
     (map_of (autoResponders mh) responderId \<noteq> None,
      mh\<lparr>autoResponders := AList.delete responderId (autoResponders mh)\<rparr>)"

definition toggleAutoResponder :: "string \<Rightarrow> js_value \<Rightarrow> message_handler \<Rightarrow> bool \<times> message_handler" where
  "toggleAutoResponder responderId en mh =
     (case map_of (autoResponders mh) responderId of
        Some r \<Rightarrow> (True, mh\<lparr>autoResponders := AList.update responderId (r\<lparr>enabled := en\<rparr>) (autoResponders mh)\<rparr>)
      | None \<Rightarrow> (False, mh))"

text \<open>The application's wiring: the one handler on the chain is the message handler's
  \<open>processMessage\<close>; the handlers' state is the message handler and the replies sent.\<close>

datatype handler = ProcessMessage

definition execHandler ::
  "string \<Rightarrow> handler \<Rightarrow> messageData \<Rightarrow> raw_message \<Rightarrow> message_handler \<times> reply list
     \<Rightarrow> (message_handler \<times> reply list) \<times> js_error option" where
  "execHandler isoNow h md m w =
     (case h of
        ProcessMessage \<Rightarrow>
          (let (mh1, sent) = processMessage isoNow (fst w) md m in ((mh1, snd w @ sent), None)))"

definition wiredService :: "handler service" where
  "wiredService = fst (addMessageHandler (Some ProcessMessage) newService)"

definition emptyWorld :: "(message_handler \<times> reply list) world" where
  "emptyWorld = \<lparr>db_messages = [], posts = [], handler_world = (newMessageHandler, [])\<rparr>"


section \<open>Sample inputs\<close>

text \<open>An inbound chat message, the same message marked as sent by the account itself, and
  a redelivery of it under the same id with another body.\<close>

definition sampleMessage :: raw_message where
  "sampleMessage =
     \<lparr>raw_id = ''3EB0C767D26A1B2E5F'', raw_serialized = ''false_972501234567@c.us_3EB0C767D26A1B2E5F'',
      raw_from = ''972501234567@c.us'', raw_to = ''972509876543@c.us'', raw_body = ''  Hello  '',
      raw_timestamp = 1700000000, raw_type = ''chat'', raw_isGroupMsg = False,
      raw_author = None, raw_notifyName = Some ''Dana'', raw_fromMe = False\<rparr>"

definition ownMessage :: raw_message where
  "ownMessage = sampleMessage\<lparr>raw_fromMe := True\<rparr>"

definition redelivered :: raw_message where
  "redelivered = sampleMessage\<lparr>raw_body := ''Hello again''\<rparr>"

text \<open>A rule that answers \<open>hi!\<close> to \<open>hello\<close>; a registry with a disabled copy before it
  and a second matching rule after it; and a registry whose only rule answers with the
  empty string.\<close>

definition helloRule :: responder where
  "helloRule =
     \<lparr>responder_id = ''r1'', responder_trigger = StringTrigger ''hello'',
      responder_response = StringResponse ''hi!'', enabled = JBool True,
      createdAt = ''2023-11-14T22:13:20.000Z'', description = []\<rparr>"

definition sampleRegistry :: message_handler where
  "sampleRegistry =
     newMessageHandler\<lparr>autoResponders :=
       [(''r0'', helloRule\<lparr>responder_id := ''r0'', enabled := JBool False\<rparr>),
        (''r1'', helloRule),
        (''r2'', helloRule\<lparr>responder_id := ''r2'', responder_trigger := StringTrigger ''hel'',
                           responder_response := StringResponse ''second''\<rparr>)]\<rparr>"

definition silentRegistry :: message_handler where
  "silentRegistry =
     newMessageHandler\<lparr>autoResponders :=
       [(''r1'', helloRule\<lparr>responder_response := StringResponse []\<rparr>)]\<rparr>"

text \<open>The search of a pattern that is a literal text: its first occurrence at or after
  the start index.  With it, the expression \<open>/hello/g\<close> as \<open>POST /api/auto-responders\<close>
  builds it from the string \<open>"/hello/g"\<close>, and a registry whose only rule has that
  trigger.\<close>

fun searchFrom :: "string \<Rightarrow> string \<Rightarrow> nat \<Rightarrow> nat option" where
  "searchFrom pat [] k = (if pat = [] then Some k else None)"
| "searchFrom pat (c # cs) k =
     (if startsWith (c # cs) pat then Some (k + length pat) else searchFrom pat cs (Suc k))"

definition literalSearch :: "string \<Rightarrow> nat \<Rightarrow> string \<Rightarrow> nat option" where
  "literalSearch pat i text = (if i > length text then None else searchFrom pat (drop i text) i)"

definition helloGlobal :: regexp where
  "helloGlobal = \<lparr>re_search = literalSearch ''hello'', re_global = True, lastIndex = 0\<rparr>"

definition globalRegistry :: message_handler where
  "globalRegistry =
     newMessageHandler\<lparr>autoResponders :=
       [(''g1'', helloRule\<lparr>responder_id := ''g1'', responder_trigger := RegExpTrigger helloGlobal\<rparr>)]\<rparr>"

text \<open>The bound that \<open>addToMessageLog\<close> applies after its \<open>push\<close>.\<close>

definition capLog :: "nat \<Rightarrow> 'a list \<Rightarrow> 'a list" where
  "capLog n lg = (if length lg > n then sliceLast n lg else lg)"


section \<open>Properties of the Lock Reconciler\<close>

lemma removeLocks_dir_le: "dir_after (removeLocks fs d lg) x = None" if "d x = None"
  using that
  by (induction fs d lg rule: removeLocks.induct)
     (auto simp: existsSync_def unlinkSync_def split: option.splits dir_entry.splits)

lemma removeLocks_again:
  "dir_after (removeLocks fs (dir_after (removeLocks fs d lg)) lg') = dir_after (removeLocks fs d lg)
   \<and> lock_log (removeLocks fs (dir_after (removeLocks fs d lg)) lg') = lg'"
proof (induction fs d lg rule: removeLocks.induct)
  case (1 d lg)
  show ?case by simp
next
  case (2 lockFile rest d lg)
  show ?case
  proof (cases "d lockFile")
    case None
    then have gone: "dir_after (removeLocks rest d lg) lockFile = None"
      by (rule removeLocks_dir_le)
    from None 2 gone show ?thesis by (simp add: existsSync_def)
  next
    case (Some k)
    show ?thesis
    proof (cases k)
      case PlainFile
      let ?d' = "d(lockFile := None)"
      let ?lg = "lg @ [Info (''Removed stale lock file: '' @ lockFile)]"
      have gone: "dir_after (removeLocks rest ?d' ?lg) lockFile = None"
        by (rule removeLocks_dir_le) simp
      from Some PlainFile 2 gone show ?thesis
        by (simp add: existsSync_def unlinkSync_def)
    next
      case Directory
      with Some show ?thesis by (simp add: existsSync_def unlinkSync_def)
    next
      case BusyFile
      with Some show ?thesis by (simp add: existsSync_def unlinkSync_def)
    qed
  qed
qed

text \<open>
  Claim C7.  For every session directory, \<open>cleanupStaleLocks\<close> returns normally (it
  never throws, whether the marker files are present, absent or not removable), and
  running it a second time on the directory the first run left behind returns normally
  too, leaves that directory as it is and logs no removal.
\<close>

theorem cleanupStaleLocks_idempotent:
  "\<exists>d1 lg1 lg2.
     cleanupStaleLocks d = Inr (d1, lg1) \<and>
     cleanupStaleLocks d1 = Inr (d1, lg2) \<and>
     filter isRemoval lg2 = []"
proof -
  let ?r = "removeLocks lockFiles d []"
  let ?r2 = "removeLocks lockFiles (dir_after ?r) []"
  have again: "dir_after ?r2 = dir_after ?r" "lock_log ?r2 = []"
    using removeLocks_again [of lockFiles d "[]" "[]"] by simp_all
  have first: "\<exists>lg1. cleanupStaleLocks d = Inr (dir_after ?r, lg1)"
    by (simp add: cleanupStaleLocks_def Let_def split: option.splits)
  have second: "\<exists>lg2. cleanupStaleLocks (dir_after ?r) = Inr (dir_after ?r, lg2)
      \<and> filter isRemoval lg2 = []"
    using again
    by (simp add: cleanupStaleLocks_def Let_def isRemoval_def split: option.splits)
  from first second show ?thesis by blast
qed

section \<open>Properties of the Session Lifecycle Manager\<close>

text \<open>The new service, written out (also the equation that evaluation uses).\<close>

lemma newService_code [code]:
  "newService =
     \<lparr>has_client = True, isReady = False, qrCode = None,
      connectionStatus = ''disconnected'', messageHandlers = []\<rparr>"
  by (simp add: newService_def constructor_def initializeClient_def)

lemma handleEvent_handlers: "messageHandlers (handleEvent e s) = messageHandlers s"
  by (cases e) (auto split: sum.splits)

lemma applyOp_handlers_grow: "\<exists>ys. messageHandlers (applyOp op s) = messageHandlers s @ ys"
  by (cases op)
     (auto simp: start_def stop_def addMessageHandler_def initializeClient_def Let_def
                 handleEvent_handlers
           split: option.splits)

lemma run_snoc: "run (ops @ [op]) s = applyOp op (run ops s)"
  by (simp add: run_def)

lemma run_handlers_grow: "\<exists>ys. messageHandlers (run ops s) = messageHandlers s @ ys"
proof (induction ops rule: rev_induct)
  case Nil
  show ?case by (simp add: run_def)
next
  case (snoc op ops)
  then obtain ys where ys: "messageHandlers (run ops s) = messageHandlers s @ ys" by blast
  obtain zs where "messageHandlers (applyOp op (run ops s)) = messageHandlers (run ops s) @ zs"
    using applyOp_handlers_grow by blast
  with ys show ?case by (simp add: run_snoc)
qed

text \<open>
  Claim C10.  \<open>start\<close> and \<open>stop\<close> (whatever fails inside them) and every client event
  leave the handler list as it is.  Over any run of lifecycle operations, registrations
  included, the handlers registered before are still there, in the same order, at the
  front of the list, so the \<open>handlersCount\<close> that \<open>getStatus\<close> reports never decreases.
\<close>

theorem lifecycle_keeps_handlers:
  "messageHandlers (fst (start destroyFault buildFault connectFault s)) = messageHandlers s \<and>
   messageHandlers (fst (stop destroyFault' s)) = messageHandlers s \<and>
   messageHandlers (handleEvent e s) = messageHandlers s \<and>
   take (length (messageHandlers s)) (messageHandlers (run ops s)) = messageHandlers s \<and>
   handlersCount (getStatus t s) \<le> handlersCount (getStatus t' (run ops s))"
proof -
  have a: "messageHandlers (fst (start destroyFault buildFault connectFault s)) = messageHandlers s"
    by (simp add: start_def initializeClient_def Let_def split: option.splits)
  have b: "messageHandlers (fst (stop destroyFault' s)) = messageHandlers s"
    by (simp add: stop_def split: option.splits)
  obtain ys where ys: "messageHandlers (run ops s) = messageHandlers s @ ys"
    using run_handlers_grow by blast
  from a b ys show ?thesis
    by (simp add: handleEvent_handlers getStatus_def)
qed














text \<open>Outside the orderly runs the status and the QR code come apart further.  When
  \<open>ready\<close> is handled while the \<open>qr\<close> handler awaits the rendering, the handler resumes
  afterwards and stores the QR code in a service that is ready; and \<open>auth_failure\<close>,
  unlike \<open>disconnected\<close>, leaves the QR code in place.\<close>

lemma qr_resumed_after_ready:
  "run [ClientEvent QrEvent, ClientEvent ReadyEvent, ClientEvent (QrResume (Inr ''data:image/png;base64,iVBOR''))]
     (newService :: nat service)
   = \<lparr>has_client = True, isReady = True, qrCode = Some ''data:image/png;base64,iVBOR'',
      connectionStatus = ''authenticated'', messageHandlers = []\<rparr>"
  by (simp add: run_def newService_code)

lemma auth_failure_keeps_qrCode:
  "run [ClientEvent QrEvent, ClientEvent (QrResume (Inr ''data:image/png;base64,iVBOR'')), ClientEvent AuthFailureEvent]
     (newService :: nat service)
   = \<lparr>has_client = True, isReady = False, qrCode = Some ''data:image/png;base64,iVBOR'',
      connectionStatus = ''disconnected'', messageHandlers = []\<rparr>"
  by (simp add: run_def newService_code)


section \<open>Properties of the send operations\<close>

lemma trim_blank: "list_all isWhiteSpace m \<Longrightarrow> trim m = []"
proof -
  assume "list_all isWhiteSpace m"
  then have d: "dropWhile isWhiteSpace m = []"
    by (induction m) auto
  show ?thesis unfolding trim_def d by simp
qed

lemma readyService_fields:
  "isReady readyService" "has_client readyService"
  by (simp_all add: readyService_def run_def newService_def constructor_def initializeClient_def)

lemma sample_formatPhoneNumber: "formatPhoneNumber (Some ''0501234567'') ''972'' = Inr ''972501234567@c.us''"
  by (simp add: formatPhoneNumber_def stripNonDigits_def isDigit_def Let_def)

lemma sample_validatePhoneNumber: "validatePhoneNumber (Some ''0501234567'')"
  by (simp add: validatePhoneNumber_def stripNonDigits_def isDigit_def Let_def)

lemma sample_trim: "trim ''hello'' = ''hello''"
  by (simp add: trim_def isWhiteSpace_def)

text \<open>
  Claim C8.  Whatever the state of the service, the client and the address, a message
  text that is empty or made of white space only is rejected by \<open>sendMessage\<close> and by
  \<open>sendToChat\<close> with a failure record, and no call to the Messaging Client (neither
  \<open>getNumberId\<close> nor \<open>sendMessage\<close>) is made.
\<close>

theorem blank_message_rejected:
  assumes "list_all isWhiteSpace m"
  shows "failureResult (fst (sendMessage c now s phoneNumber (Some m) cc)) \<and>
         snd (sendMessage c now s phoneNumber (Some m) cc) = [] \<and>
         failureResult (fst (sendToChat c now s chatId (Some m))) \<and>
         snd (sendToChat c now s chatId (Some m)) = []"
proof -
  have t: "trim m = []" using assms by (rule trim_blank)
  have a: "\<exists>e. sendMessage_try c now s phoneNumber (Some m) cc = (Inl (ErrorThrown e), [])"
    by (simp add: sendMessage_try_def t)
  have b: "\<exists>e. sendToChat_try c now s chatId (Some m) = (Inl (ErrorThrown e), [])"
    by (simp add: sendToChat_try_def t)
  from a b show ?thesis
    by (auto simp: sendMessage_def sendToChat_def failureResult_def failureCaught_def messageOf_def)
qed

text \<open>A single blank, sent through a ready service.\<close>

theorem blank_message_rejected_witness:
  "list_all isWhiteSpace '' '' \<and>
   failureResult (fst (sendMessage quirkyClient 0 readyService (Some ''0501234567'') (Some '' '') ''972'')) \<and>
   snd (sendMessage quirkyClient 0 readyService (Some ''0501234567'') (Some '' '') ''972'') = [] \<and>
   failureResult (fst (sendToChat quirkyClient 0 readyService ''972501234567@c.us'' (Some '' ''))) \<and>
   snd (sendToChat quirkyClient 0 readyService ''972501234567@c.us'' (Some '' '')) = []"
  using blank_message_rejected [of "'' ''" quirkyClient 0 readyService "Some ''0501234567''" "''972''" "''972501234567@c.us''"]
  by (simp add: isWhiteSpace_def)





















text \<open>The same client under \<open>sendToChat\<close>: the \<open>null\<close> thrown by the send primitive is
  caught by the inner \<open>catch\<close>, whose read of \<open>sendError.message\<close> throws a \<open>TypeError\<close>;
  that one is an \<open>Error\<close>, and the outer \<open>catch\<close> returns it in a failure record.\<close>

lemma sendToChat_null_rejection:
  "fst (sendToChat nullClient 0 readyService ''972501234567@c.us'' (Some ''hello'')) =
     Inr (emptyResult\<lparr>sent_to := Some ''972501234567@c.us'', message := Some ''hello'', success := False,
                       error := Some (err_message (cannotRead ''null'' ''message''))\<rparr>)"
  by (simp add: sendToChat_def sendToChat_try_def readyService_fields sample_trim nullClient_def
        sendErrorCaught_def failureCaught_def messageOf_def Let_def)

text \<open>
  Claim C5.  If the client's send primitive, called by \<open>sendMessage\<close> or \<open>sendToChat\<close>,
  throws an error whose message contains \<open>markedUnread\<close>, the operation returns a record
  with \<open>success = true\<close>, an id that starts with \<open>pending-\<close>, a note and no error.
\<close>

theorem markedUnread_treated_as_success:
  assumes "clientSendMessage c a m = Inl (ErrorThrown sendError)"
    and "includesStr (err_message sendError) ''markedUnread''"
  shows "(SendMessageCall a m \<in> set (snd (sendMessage c now s p msg cc)) \<longrightarrow>
            pendingSuccess (fst (sendMessage c now s p msg cc))) \<and>
         (SendMessageCall a m \<in> set (snd (sendToChat c now s chatId msg)) \<longrightarrow>
            pendingSuccess (fst (sendToChat c now s chatId msg)))"
proof -
  have mu: "isMarkedUnread sendError"
    using assms(2) by (cases "err_message sendError") (simp_all add: isMarkedUnread_def)
  have caught: "\<And>pending. sendErrorCaught (ErrorThrown sendError) pending = Inr pending"
    using mu by (simp add: sendErrorCaught_def messageOf_def isMarkedUnread_def)
  have a: "SendMessageCall a m \<in> set (snd (sendMessage c now s p msg cc)) \<longrightarrow>
            pendingSuccess (fst (sendMessage c now s p msg cc))"
    using assms(1) caught
    by (auto simp: sendMessage_def sendMessage_try_def pendingSuccess_def emptyResult_def Let_def
                   failureCaught_def messageOf_def
             split: if_splits option.splits sum.splits thrown.splits)
  have b: "SendMessageCall a m \<in> set (snd (sendToChat c now s chatId msg)) \<longrightarrow>
            pendingSuccess (fst (sendToChat c now s chatId msg))"
    using assms(1) caught
    by (auto simp: sendToChat_def sendToChat_try_def pendingSuccess_def emptyResult_def Let_def
                   failureCaught_def messageOf_def
             split: if_splits option.splits sum.splits thrown.splits)
  from a b show ?thesis by blast
qed

text \<open>The quirky client, asked to send \<open>hello\<close> through a ready service.\<close>

theorem markedUnread_treated_as_success_witness:
  "clientSendMessage quirkyClient ''972501234567@c.us'' ''hello'' =
     Inl (ErrorThrown (Error ''Evaluation failed: TypeError: Cannot read properties of undefined (reading markedUnread)'')) \<and>
   includesStr ''Evaluation failed: TypeError: Cannot read properties of undefined (reading markedUnread)'' ''markedUnread'' \<and>
   SendMessageCall ''972501234567@c.us'' ''hello''
     \<in> set (snd (sendMessage quirkyClient 1700000000123 readyService (Some ''0501234567'') (Some ''hello'') ''972'')) \<and>
   pendingSuccess (fst (sendMessage quirkyClient 1700000000123 readyService (Some ''0501234567'') (Some ''hello'') ''972'')) \<and>
   SendMessageCall ''972501234567@c.us'' ''hello''
     \<in> set (snd (sendToChat quirkyClient 1700000000123 readyService ''972501234567@c.us'' (Some ''hello''))) \<and>
   pendingSuccess (fst (sendToChat quirkyClient 1700000000123 readyService ''972501234567@c.us'' (Some ''hello'')))"
proof -
  have e: "clientSendMessage quirkyClient ''972501234567@c.us'' ''hello'' =
     Inl (ErrorThrown (Error ''Evaluation failed: TypeError: Cannot read properties of undefined (reading markedUnread)''))"
    by (simp add: quirkyClient_def)
  have i: "includesStr ''Evaluation failed: TypeError: Cannot read properties of undefined (reading markedUnread)'' ''markedUnread''"
    by simp
  have n: "getNumberId quirkyClient ''972501234567@c.us'' = Inr (Some ''972501234567@c.us'')"
    by (simp add: quirkyClient_def)
  have c1: "SendMessageCall ''972501234567@c.us'' ''hello''
     \<in> set (snd (sendMessage quirkyClient 1700000000123 readyService (Some ''0501234567'') (Some ''hello'') ''972''))"
    by (simp add: sendMessage_def sendMessage_try_def readyService_fields sample_formatPhoneNumber
          sample_validatePhoneNumber sample_trim n Let_def split: sum.splits prod.splits)
  have c2: "SendMessageCall ''972501234567@c.us'' ''hello''
     \<in> set (snd (sendToChat quirkyClient 1700000000123 readyService ''972501234567@c.us'' (Some ''hello'')))"
    by (simp add: sendToChat_def sendToChat_try_def readyService_fields sample_trim Let_def
          split: sum.splits prod.splits)
  from markedUnread_treated_as_success [OF e, where now = 1700000000123 and s = readyService
      and p = "Some ''0501234567''" and msg = "Some ''hello''" and cc = "''972''"
      and chatId = "''972501234567@c.us''"] i c1 c2 e
  show ?thesis by simp
qed


section \<open>Properties of the Message Dispatcher\<close>

text \<open>
  Claim C1, as the code has it.  When a webhook URL is configured (a non-empty
  \<open>WEBHOOK_URL\<close>), \<open>handleIncomingMessage\<close> issues exactly one POST for the message, with
  event \<open>message\<close>, the payload built from the message and a timeout of 5000 ms, whatever
  \<open>fromMe\<close> is; the payload carries the \<open>fromMe\<close> flag of the message.  Without a URL no
  POST is issued.
\<close>

theorem webhook_for_every_message:
  assumes "url \<noteq> []"
  shows "posts (handleIncomingMessage exec (Some url) dbFault s m w) =
           posts w @ [\<lparr>post_url = url, post_event = ''message'',
                        post_payload = webhookPayload m, post_timeout = 5000\<rparr>] \<and>
         wp_fromMe (webhookPayload m) = raw_fromMe m \<and>
         posts (handleIncomingMessage exec None dbFault s m w) = posts w \<and>
         posts (handleIncomingMessage exec (Some []) dbFault s m w) = posts w"
  using assms by (simp add: handleIncomingMessage_def Let_def webhookPayload_def)

text \<open>The sample message, delivered with a webhook URL configured.\<close>

theorem webhook_for_every_message_witness:
  "''http://localhost:8080/hook'' \<noteq> [] \<and>
   posts (handleIncomingMessage (execHandler ''2023-11-14T22:13:20.000Z'') (Some ''http://localhost:8080/hook'')
            None wiredService sampleMessage emptyWorld) =
     [\<lparr>post_url = ''http://localhost:8080/hook'', post_event = ''message'',
        post_payload = webhookPayload sampleMessage, post_timeout = 5000\<rparr>] \<and>
   wp_fromMe (webhookPayload sampleMessage) = False"
  using webhook_for_every_message [of "''http://localhost:8080/hook''" "execHandler ''2023-11-14T22:13:20.000Z''"
      None wiredService sampleMessage emptyWorld]
  by (simp add: emptyWorld_def sampleMessage_def)

text \<open>The claim as stated fails: for a message that the account itself sent
  (\<open>fromMe\<close> true) the POST is issued all the same.\<close>

theorem webhook_own_message_counterexample:
  "raw_fromMe ownMessage \<and>
   posts (handleIncomingMessage (execHandler ''2023-11-14T22:13:20.000Z'') (Some ''http://localhost:8080/hook'')
            None wiredService ownMessage emptyWorld) =
     [\<lparr>post_url = ''http://localhost:8080/hook'', post_event = ''message'',
        post_payload = webhookPayload ownMessage, post_timeout = 5000\<rparr>]"
  by (simp add: handleIncomingMessage_def Let_def emptyWorld_def ownMessage_def)

lemma capLog_snoc: "0 < n \<Longrightarrow> \<exists>pre. capLog n (xs @ [x]) = pre @ [x]"
proof (cases "length (xs @ [x]) > n")
  case False
  then show ?thesis by (simp add: capLog_def)
next
  case True
  assume "0 < n"
  with True have "capLog n (xs @ [x]) = drop (length xs + 1 - n) xs @ [x]"
    by (simp add: capLog_def sliceLast_def)
  then show ?thesis by blast
qed

lemma capLog_snoc2: "2 \<le> n \<Longrightarrow> \<exists>pre. capLog n (xs @ [x, y]) = pre @ [x, y]"
proof (cases "length (xs @ [x, y]) > n")
  case False
  then show ?thesis by (simp add: capLog_def)
next
  case True
  assume "2 \<le> n"
  with True have "capLog n (xs @ [x, y]) = drop (length xs + 2 - n) xs @ [x, y]"
    by (simp add: capLog_def sliceLast_def)
  then show ?thesis by blast
qed

lemma messageLog_addToMessageLog:
  "messageLog (addToMessageLog isoNow md mh) =
     capLog (maxLogSize mh) (messageLog mh @ [\<lparr>logged = md, processedAt = isoNow\<rparr>])"
  by (simp add: addToMessageLog_def capLog_def Let_def)

lemma checkAutoResponders_frame:
  "messageLog (snd (checkAutoResponders mh md m)) = messageLog mh"
  "maxLogSize (snd (checkAutoResponders mh md m)) = maxLogSize mh"
  by (simp_all add: checkAutoResponders_def split: prod.splits)

lemma fst_processMessage:
  "fst (processMessage isoNow mh md m) =
     (if (md_isGroupMsg md \<and> \<not> shouldProcessGroupMessages) \<or> isOwnMessage md
      then addToMessageLog isoNow md mh
      else snd (checkAutoResponders (addToMessageLog isoNow md mh) md m))"
  by (simp add: processMessage_def Let_def split: prod.splits)

lemma messageLog_processMessage:
  "messageLog (fst (processMessage isoNow mh md m)) = messageLog (addToMessageLog isoNow md mh)"
  by (simp add: fst_processMessage checkAutoResponders_frame)

lemma maxLogSize_addToMessageLog: "maxLogSize (addToMessageLog isoNow md mh) = maxLogSize mh"
  by (simp add: addToMessageLog_def Let_def)

lemma maxLogSize_processMessage:
  "maxLogSize (fst (processMessage isoNow mh md m)) = maxLogSize mh"
  by (simp add: fst_processMessage checkAutoResponders_frame maxLogSize_addToMessageLog)

lemma addToMessageLog_twice:
  assumes "2 \<le> maxLogSize mh" "maxLogSize mh1 = maxLogSize mh"
    and "messageLog mh1 = messageLog (addToMessageLog t1 md1 mh)"
  shows "\<exists>pre. messageLog (addToMessageLog t2 md2 mh1) =
           pre @ [\<lparr>logged = md1, processedAt = t1\<rparr>, \<lparr>logged = md2, processedAt = t2\<rparr>]"
proof -
  let ?x = "\<lparr>logged = md1, processedAt = t1\<rparr>"
  let ?y = "\<lparr>logged = md2, processedAt = t2\<rparr>"
  from assms(1) have pos: "0 < maxLogSize mh" by simp
  have "\<exists>pre. capLog (maxLogSize mh) (messageLog mh @ [?x]) = pre @ [?x]"
    by (rule capLog_snoc [OF pos])
  then obtain p1 where p1: "capLog (maxLogSize mh) (messageLog mh @ [?x]) = p1 @ [?x]" ..
  have "\<exists>pre. capLog (maxLogSize mh) (p1 @ [?x, ?y]) = pre @ [?x, ?y]"
    by (rule capLog_snoc2 [OF assms(1)])
  then obtain p2 where p2: "capLog (maxLogSize mh) (p1 @ [?x, ?y]) = p2 @ [?x, ?y]" ..
  have "messageLog mh1 = p1 @ [?x]"
    by (simp only: assms(3) messageLog_addToMessageLog p1)
  then have "messageLog (addToMessageLog t2 md2 mh1) = capLog (maxLogSize mh) ((p1 @ [?x]) @ [?y])"
    by (simp only: messageLog_addToMessageLog assms(2))
  also have "\<dots> = p2 @ [?x, ?y]" using p2 by simp
  finally show ?thesis by (rule exI)
qed

lemma wiredService_handlers: "messageHandlers wiredService = [ProcessMessage]"
  by (simp add: wiredService_def addMessageHandler_def newService_def constructor_def initializeClient_def)

text \<open>
  Claim C3, as the code has it.  Let \<open>e'\<close> be a redelivery of \<open>e\<close> (same id), processed
  after \<open>e\<close> by the service whose handler chain is the message handler, and let the insert
  of \<open>e'\<close> succeed.  Then the table holds exactly one row with that id, the row of \<open>e'\<close>:
  the row is replaced, not duplicated.  The message log is not deduplicated: each delivery
  appends an entry, so its last two entries are the one of \<open>e\<close> and the one of \<open>e'\<close>, both
  with that id (the log's bound being at least 2; it is 1000).
\<close>

theorem redelivery_store_and_log:
  assumes same: "raw_id e' = raw_id e"
    and wired: "messageHandlers s = [ProcessMessage]"
    and room: "2 \<le> maxLogSize (fst (handler_world w))"
  shows "filter (\<lambda>r. row_id r = raw_id e)
           (db_messages (handleIncomingMessage (execHandler t2) url None s e'
              (handleIncomingMessage (execHandler t1) url dbFault s e w)))
           = [toRow (toMessageData e')] \<and>
         (\<exists>pre. messageLog (fst (handler_world
              (handleIncomingMessage (execHandler t2) url None s e'
                 (handleIncomingMessage (execHandler t1) url dbFault s e w))))
           = pre @ [\<lparr>logged = toMessageData e, processedAt = t1\<rparr>,
                    \<lparr>logged = toMessageData e', processedAt = t2\<rparr>])"
proof -
  let ?w1 = "handleIncomingMessage (execHandler t1) url dbFault s e w"
  let ?mh = "fst (handler_world w)"
  let ?mh1 = "fst (handler_world ?w1)"
  have db: "filter (\<lambda>r. row_id r = raw_id e)
           (db_messages (handleIncomingMessage (execHandler t2) url None s e' ?w1))
           = [toRow (toMessageData e')]"
    using same by (simp add: handleIncomingMessage_def Let_def insertOrReplace_def toRow_def toMessageData_def)
  have mh1: "?mh1 = fst (processMessage t1 ?mh (toMessageData e) e)"
    by (simp add: handleIncomingMessage_def Let_def wired execHandler_def split: prod.splits)
  have mh2: "fst (handler_world (handleIncomingMessage (execHandler t2) url None s e' ?w1))
          = fst (processMessage t2 ?mh1 (toMessageData e') e')"
    by (simp add: handleIncomingMessage_def Let_def wired execHandler_def split: prod.splits)
  have "\<exists>pre. messageLog (addToMessageLog t2 (toMessageData e') ?mh1) =
           pre @ [\<lparr>logged = toMessageData e, processedAt = t1\<rparr>, \<lparr>logged = toMessageData e', processedAt = t2\<rparr>]"
    by (rule addToMessageLog_twice [OF room])
       (simp_all only: mh1 maxLogSize_processMessage messageLog_processMessage)
  then have lg: "\<exists>pre. messageLog (fst (handler_world
              (handleIncomingMessage (execHandler t2) url None s e' ?w1)))
           = pre @ [\<lparr>logged = toMessageData e, processedAt = t1\<rparr>,
                    \<lparr>logged = toMessageData e', processedAt = t2\<rparr>]"
    by (simp only: mh2 messageLog_processMessage)
  from db lg show ?thesis by (rule conjI)
qed

text \<open>The sample message and its redelivery, on an empty store and an empty log.\<close>

theorem redelivery_store_and_log_witness:
  "raw_id redelivered = raw_id sampleMessage \<and>
   messageHandlers wiredService = [ProcessMessage] \<and>
   2 \<le> maxLogSize (fst (handler_world emptyWorld)) \<and>
   filter (\<lambda>r. row_id r = raw_id sampleMessage)
     (db_messages (handleIncomingMessage (execHandler ''T2'') None None wiredService redelivered
        (handleIncomingMessage (execHandler ''T1'') None None wiredService sampleMessage emptyWorld)))
     = [toRow (toMessageData redelivered)] \<and>
   messageLog (fst (handler_world
        (handleIncomingMessage (execHandler ''T2'') None None wiredService redelivered
           (handleIncomingMessage (execHandler ''T1'') None None wiredService sampleMessage emptyWorld))))
     = [\<lparr>logged = toMessageData sampleMessage, processedAt = ''T1''\<rparr>,
        \<lparr>logged = toMessageData redelivered, processedAt = ''T2''\<rparr>]"
proof -
  have a: "raw_id redelivered = raw_id sampleMessage"
    by (simp add: redelivered_def)
  have c: "2 \<le> maxLogSize (fst (handler_world emptyWorld))"
    by (simp add: emptyWorld_def newMessageHandler_def)
  have lg: "messageLog (fst (handler_world
        (handleIncomingMessage (execHandler ''T2'') None None wiredService redelivered
           (handleIncomingMessage (execHandler ''T1'') None None wiredService sampleMessage emptyWorld))))
     = [\<lparr>logged = toMessageData sampleMessage, processedAt = ''T1''\<rparr>,
        \<lparr>logged = toMessageData redelivered, processedAt = ''T2''\<rparr>]"
    by (simp add: handleIncomingMessage_def Let_def wiredService_handlers execHandler_def
          processMessage_def addToMessageLog_def checkAutoResponders_def emptyWorld_def
          newMessageHandler_def
          split: prod.splits)
  from redelivery_store_and_log [OF a wiredService_handlers c, of "''T2''" None "''T1''" None] a c lg
  show ?thesis by (simp add: wiredService_handlers)
qed

text \<open>The claim as stated fails for the message log: after the same message is
  delivered twice, the log holds two entries with its id.\<close>

theorem redelivery_log_counterexample:
  "map (\<lambda>en. md_id (logged en))
     (messageLog (fst (handler_world
        (handleIncomingMessage (execHandler ''T2'') None None wiredService sampleMessage
           (handleIncomingMessage (execHandler ''T1'') None None wiredService sampleMessage emptyWorld)))))
     = [''3EB0C767D26A1B2E5F'', ''3EB0C767D26A1B2E5F'']"
  by (simp add: handleIncomingMessage_def Let_def wiredService_handlers execHandler_def
        processMessage_def addToMessageLog_def checkAutoResponders_def emptyWorld_def
        newMessageHandler_def toMessageData_def sampleMessage_def
        split: prod.splits)

section \<open>Properties of the Auto-Response Engine\<close>

text \<open>
  Claim C4, as the code has it.  \<open>addAutoResponder\<close> validates nothing: for every trigger,
  of a supported kind or not, it returns an id and stores a rule under that id.  The rule
  has the trigger and the response given as arguments, unless \<open>options\<close> has a \<open>trigger\<close>
  or a \<open>response\<close> key of its own, which then takes their place.  A rule whose trigger is
  not a string, a \<open>RegExp\<close> or a function is stored as well; it matches no message.
\<close>

theorem addAutoResponder_accepts_any_trigger:
  "(\<exists>responderId r mh'.
      addAutoResponder trg resp options now isoNow mh = Inr (responderId, mh') \<and>
      map_of (autoResponders mh') responderId = Some r \<and>
      responder_trigger r = (case opt_trigger options of None \<Rightarrow> trg | Some t \<Rightarrow> t) \<and>
      responder_response r = (case opt_response options of None \<Rightarrow> resp | Some x \<Rightarrow> x)) \<and>
   \<not> fst (matchesTrigger messageText OtherTrigger)"
  by (simp add: addAutoResponder_def Let_def AList.update_conv' matchesTrigger_def)

text \<open>The claim as stated fails: a trigger of no supported kind is not rejected; the
  rule is stored and its id returned.\<close>

theorem addAutoResponder_counterexample:
  "addAutoResponder OtherTrigger (StringResponse ''hi!'') (noOptions\<lparr>opt_id := Some ''r1''\<rparr>)
      1700000000000 ''2023-11-14T22:13:20.000Z'' newMessageHandler
   = Inr (''r1'',
          newMessageHandler\<lparr>autoResponders :=
            [(''r1'', \<lparr>responder_id = ''r1'', responder_trigger = OtherTrigger,
                       responder_response = StringResponse ''hi!'', enabled = JBool True,
                       createdAt = ''2023-11-14T22:13:20.000Z'', description = []\<rparr>)]\<rparr>)"
  by (simp add: addAutoResponder_def Let_def newMessageHandler_def noOptions_def)

text \<open>The keys of \<open>options\<close> win over the arguments: with a \<open>trigger\<close> key the rule
  stored answers to that trigger, not to the argument; and \<open>enabled: null\<close> is stored as
  given, a rule that is never evaluated.\<close>

lemma addAutoResponder_options_win:
  "addAutoResponder OtherTrigger (StringResponse ''hi!'')
      (noOptions\<lparr>opt_id := Some ''r1'', opt_trigger := Some (StringTrigger ''hello''),
                 opt_enabled := Some JNull\<rparr>)
      1700000000000 ''2023-11-14T22:13:20.000Z'' newMessageHandler
   = Inr (''r1'',
          newMessageHandler\<lparr>autoResponders :=
            [(''r1'', \<lparr>responder_id = ''r1'', responder_trigger = StringTrigger ''hello'',
                       responder_response = StringResponse ''hi!'', enabled = JNull,
                       createdAt = ''2023-11-14T22:13:20.000Z'', description = []\<rparr>)]\<rparr>)"
  by (simp add: addAutoResponder_def Let_def newMessageHandler_def noOptions_def)

lemma executeAutoResponder_afterTest:
  "executeAutoResponder (afterTest t r) md m = executeAutoResponder r md m"
  by (simp add: executeAutoResponder_def resolveResponse_def afterTest_def)

text \<open>The rules before the first hit: the disabled ones are passed over, the others
  have their trigger evaluated.\<close>

definition passedOver :: "string \<Rightarrow> string \<times> responder \<Rightarrow> string \<times> responder" where
  "passedOver t kr = (if truthy (enabled (snd kr)) then (fst kr, afterTest t (snd kr)) else kr)"

lemma scanResponders_skip:
  "list_all (\<lambda>kr. \<not> (truthy (enabled (snd kr)) \<and> fst (matchesTrigger t (responder_trigger (snd kr))))) pre \<Longrightarrow>
   scanResponders t md m (pre @ rest) =
     ((fst (scanResponders t md m rest))
        \<lparr>evaluated := map fst (filter (\<lambda>kr. truthy (enabled (snd kr))) pre)
                        @ evaluated (fst (scanResponders t md m rest))\<rparr>,
      map (passedOver t) pre @ snd (scanResponders t md m rest))"
  by (induction pre) (auto simp: passedOver_def split: prod.splits)

lemma executeAutoResponder_length: "length (executeAutoResponder r md m) \<le> 1"
  by (simp add: executeAutoResponder_def split: sum.splits)

text \<open>
  Claim C6, as the code has it.  For a message of type \<open>chat\<close>, let \<open>(k, r)\<close> be the first
  rule of the registry, in insertion order, that is enabled and whose trigger, evaluated
  on the lower-cased, trimmed body, answers true.  (For a \<open>RegExp\<close> with the \<open>g\<close> or \<open>y\<close>
  flag the answer depends on the \<open>lastIndex\<close> that earlier messages left, not on the text
  alone.)  Then \<open>checkAutoResponders\<close> executes rule \<open>k\<close> and no other; it evaluates the
  triggers of the enabled rules up to \<open>k\<close> and leaves the rules after \<open>k\<close> as they are;
  and it sends what executing \<open>r\<close> sends: at most one reply, and exactly one, to the
  sender's number, when the response of \<open>r\<close> resolves to a non-empty text.
\<close>

theorem first_match_only:
  assumes chat: "md_type md = ''chat''"
    and registry: "autoResponders mh = pre @ (k, r) # post"
    and earlier: "list_all (\<lambda>kr. \<not> (truthy (enabled (snd kr)) \<and>
                     fst (matchesTrigger (trim (toLowerCase (md_body md))) (responder_trigger (snd kr))))) pre"
    and on: "truthy (enabled r)"
    and hit: "fst (matchesTrigger (trim (toLowerCase (md_body md))) (responder_trigger r))"
  shows "executed (fst (checkAutoResponders mh md m)) = [k] \<and>
         evaluated (fst (checkAutoResponders mh md m)) =
           map fst (filter (\<lambda>kr. truthy (enabled (snd kr))) pre) @ [k] \<and>
         drop (Suc (length pre)) (autoResponders (snd (checkAutoResponders mh md m))) = post \<and>
         replies (fst (checkAutoResponders mh md m)) = executeAutoResponder r md m \<and>
         length (replies (fst (checkAutoResponders mh md m))) \<le> 1 \<and>
         (\<forall>resp. resolveResponse r md m = Inr resp \<longrightarrow> resp \<noteq> [] \<longrightarrow>
            replies (fst (checkAutoResponders mh md m)) =
              [\<lparr>reply_to = senderNumber md, reply_text = resp, reply_countryCode = ''972''\<rparr>])"
proof -
  let ?t = "trim (toLowerCase (md_body md))"
  have here: "scanResponders ?t md m ((k, r) # post) =
      (\<lparr>evaluated = [k], executed = [k], replies = executeAutoResponder r md m\<rparr>,
       (k, afterTest ?t r) # post)"
    using on hit by (simp add: executeAutoResponder_afterTest)
  have "checkAutoResponders mh md m =
      (fst (scanResponders ?t md m (pre @ (k, r) # post)),
       mh\<lparr>autoResponders := snd (scanResponders ?t md m (pre @ (k, r) # post))\<rparr>)"
    using chat registry by (simp add: checkAutoResponders_def split: prod.splits)
  also have "\<dots> =
      (\<lparr>evaluated = map fst (filter (\<lambda>kr. truthy (enabled (snd kr))) pre) @ [k], executed = [k],
        replies = executeAutoResponder r md m\<rparr>,
       mh\<lparr>autoResponders := map (passedOver ?t) pre @ (k, afterTest ?t r) # post\<rparr>)"
    by (simp only: scanResponders_skip [OF earlier] here) simp
  finally have res: "checkAutoResponders mh md m =
      (\<lparr>evaluated = map fst (filter (\<lambda>kr. truthy (enabled (snd kr))) pre) @ [k], executed = [k],
        replies = executeAutoResponder r md m\<rparr>,
       mh\<lparr>autoResponders := map (passedOver ?t) pre @ (k, afterTest ?t r) # post\<rparr>)" .
  have one: "length (executeAutoResponder r md m) \<le> 1"
    by (rule executeAutoResponder_length)
  have full: "\<forall>resp. resolveResponse r md m = Inr resp \<longrightarrow> resp \<noteq> [] \<longrightarrow>
      executeAutoResponder r md m =
        [\<lparr>reply_to = senderNumber md, reply_text = resp, reply_countryCode = ''972''\<rparr>]"
    by (simp add: executeAutoResponder_def)
  from one full show ?thesis by (simp add: res)
qed

lemma sample_text: "trim (toLowerCase (md_body (toMessageData sampleMessage))) = ''hello''"
  by (simp add: toMessageData_def sampleMessage_def toLowerCase_def lowerChar_def trim_def
        isWhiteSpace_def Let_def char_of_def bit_Suc_0_iff)

lemma sample_hit: "fst (matchesTrigger ''hello'' (StringTrigger ''hello''))"
  by (simp add: matchesTrigger_def toLowerCase_def lowerChar_def Let_def)

lemma sample_sender: "senderNumber (toMessageData sampleMessage) = ''501234567''"
  by (simp add: senderNumber_def toMessageData_def sampleMessage_def)

text \<open>The body \<open>"  Hello  "\<close> against the sample registry: the disabled rule is passed
  over, \<open>r1\<close> answers \<open>hi!\<close> to the sender's number, and \<open>r2\<close>, which matches too, is never
  evaluated.\<close>

theorem first_match_only_witness:
  "md_type (toMessageData sampleMessage) = ''chat'' \<and>
   autoResponders sampleRegistry =
     [(''r0'', helloRule\<lparr>responder_id := ''r0'', enabled := JBool False\<rparr>)] @ (''r1'', helloRule) #
     [(''r2'', helloRule\<lparr>responder_id := ''r2'', responder_trigger := StringTrigger ''hel'',
                        responder_response := StringResponse ''second''\<rparr>)] \<and>
   truthy (enabled helloRule) \<and>
   fst (matchesTrigger (trim (toLowerCase (md_body (toMessageData sampleMessage)))) (responder_trigger helloRule)) \<and>
   executed (fst (checkAutoResponders sampleRegistry (toMessageData sampleMessage) sampleMessage)) = [''r1''] \<and>
   evaluated (fst (checkAutoResponders sampleRegistry (toMessageData sampleMessage) sampleMessage)) = [''r1''] \<and>
   drop 2 (autoResponders (snd (checkAutoResponders sampleRegistry (toMessageData sampleMessage) sampleMessage))) =
     [(''r2'', helloRule\<lparr>responder_id := ''r2'', responder_trigger := StringTrigger ''hel'',
                        responder_response := StringResponse ''second''\<rparr>)] \<and>
   replies (fst (checkAutoResponders sampleRegistry (toMessageData sampleMessage) sampleMessage)) =
     [\<lparr>reply_to = ''501234567'', reply_text = ''hi!'', reply_countryCode = ''972''\<rparr>]"
proof -
  have chat: "md_type (toMessageData sampleMessage) = ''chat''"
    by (simp add: toMessageData_def sampleMessage_def)
  have registry: "autoResponders sampleRegistry =
     [(''r0'', helloRule\<lparr>responder_id := ''r0'', enabled := JBool False\<rparr>)] @ (''r1'', helloRule) #
     [(''r2'', helloRule\<lparr>responder_id := ''r2'', responder_trigger := StringTrigger ''hel'',
                        responder_response := StringResponse ''second''\<rparr>)]"
    by (simp add: sampleRegistry_def)
  have earlier: "list_all (\<lambda>kr. \<not> (truthy (enabled (snd kr)) \<and>
        fst (matchesTrigger (trim (toLowerCase (md_body (toMessageData sampleMessage)))) (responder_trigger (snd kr)))))
        [(''r0'', helloRule\<lparr>responder_id := ''r0'', enabled := JBool False\<rparr>)]"
    by (simp add: truthy_def)
  have on: "truthy (enabled helloRule)" by (simp add: helloRule_def truthy_def)
  have hit: "fst (matchesTrigger (trim (toLowerCase (md_body (toMessageData sampleMessage)))) (responder_trigger helloRule))"
    by (simp add: sample_text helloRule_def sample_hit)
  have sent: "executeAutoResponder helloRule (toMessageData sampleMessage) sampleMessage =
      [\<lparr>reply_to = ''501234567'', reply_text = ''hi!'', reply_countryCode = ''972''\<rparr>]"
    by (simp add: executeAutoResponder_def resolveResponse_def helloRule_def sample_sender)
  from first_match_only [OF chat registry earlier on hit, of sampleMessage] sent chat registry on hit
  show ?thesis by (simp add: truthy_def numeral_2_eq_2)
qed

text \<open>The claim as stated fails: one enabled rule matches, yet no reply is sent,
  because the response of the rule is the empty string.\<close>

theorem first_match_reply_counterexample:
  "md_type (toMessageData sampleMessage) = ''chat'' \<and>
   autoResponders silentRegistry = [(''r1'', helloRule\<lparr>responder_response := StringResponse []\<rparr>)] \<and>
   truthy (enabled (helloRule\<lparr>responder_response := StringResponse []\<rparr>)) \<and>
   fst (matchesTrigger (trim (toLowerCase (md_body (toMessageData sampleMessage))))
     (responder_trigger (helloRule\<lparr>responder_response := StringResponse []\<rparr>))) \<and>
   replies (fst (checkAutoResponders silentRegistry (toMessageData sampleMessage) sampleMessage)) = []"
  by (simp add: sample_text sample_hit silentRegistry_def helloRule_def checkAutoResponders_def
        executeAutoResponder_def resolveResponse_def truthy_def afterTest_def)
     (simp add: toMessageData_def sampleMessage_def)

text \<open>It fails as well for a rule whose trigger is \<open>/hello/g\<close>: of two deliveries of the
  same message, both matched by the pattern, the first is answered and moves \<open>lastIndex\<close>
  to 5, and the second, tested from there, is not answered and resets it.\<close>

lemma global_regexp_every_second:
  "re_search helloGlobal 0 (trim (toLowerCase (md_body (toMessageData sampleMessage)))) = Some 5 \<and>
   replies (fst (checkAutoResponders globalRegistry (toMessageData sampleMessage) sampleMessage)) =
     [\<lparr>reply_to = ''501234567'', reply_text = ''hi!'', reply_countryCode = ''972''\<rparr>] \<and>
   replies (fst (checkAutoResponders
       (snd (checkAutoResponders globalRegistry (toMessageData sampleMessage) sampleMessage))
       (toMessageData sampleMessage) sampleMessage)) = [] \<and>
   snd (checkAutoResponders
       (snd (checkAutoResponders globalRegistry (toMessageData sampleMessage) sampleMessage))
       (toMessageData sampleMessage) sampleMessage) = globalRegistry"
proof -
  have chat: "md_type (toMessageData sampleMessage) = ''chat''"
    by (simp add: toMessageData_def sampleMessage_def)
  have s0: "literalSearch ''hello'' 0 ''hello'' = Some 5"
    by (simp add: literalSearch_def)
  have s5: "literalSearch ''hello'' 5 ''hello'' = None"
    by (simp add: literalSearch_def)
  have first: "checkAutoResponders globalRegistry (toMessageData sampleMessage) sampleMessage =
      (\<lparr>evaluated = [''g1''], executed = [''g1''],
        replies = [\<lparr>reply_to = ''501234567'', reply_text = ''hi!'', reply_countryCode = ''972''\<rparr>]\<rparr>,
       newMessageHandler\<lparr>autoResponders :=
         [(''g1'', helloRule\<lparr>responder_id := ''g1'',
                             responder_trigger := RegExpTrigger (helloGlobal\<lparr>lastIndex := 5\<rparr>)\<rparr>)]\<rparr>)"
    by (simp add: checkAutoResponders_def chat sample_text globalRegistry_def helloRule_def truthy_def
          matchesTrigger_def regexpTest_def helloGlobal_def s0 afterTest_def
          executeAutoResponder_def resolveResponse_def sample_sender)
  have second: "checkAutoResponders
       (newMessageHandler\<lparr>autoResponders :=
         [(''g1'', helloRule\<lparr>responder_id := ''g1'',
                             responder_trigger := RegExpTrigger (helloGlobal\<lparr>lastIndex := 5\<rparr>)\<rparr>)]\<rparr>)
       (toMessageData sampleMessage) sampleMessage =
      (\<lparr>evaluated = [''g1''], executed = [], replies = []\<rparr>, globalRegistry)"
    by (simp add: checkAutoResponders_def chat sample_text globalRegistry_def helloRule_def truthy_def
          matchesTrigger_def regexpTest_def helloGlobal_def s5 afterTest_def)
  show ?thesis
    by (simp add: first second) (simp add: sample_text helloGlobal_def s0)
qed

end
